theory Spec2Isabelle
  imports Complex_Main
begin

section \<open>JavaScript numbers\<close>

text \<open>
  Every quantity of the page-layout code is a JavaScript \<open>number\<close>. The model keeps the
  special values of IEEE-754 that division produces (\<open>x / 0\<close> is an infinity or \<open>NaN\<close>,
  never an exception) and computes on finite values with exact real arithmetic: rounding,
  overflow and the sign of zero are abstracted.
\<close>

datatype number = Fin real | PInf | NInf | NaN

fun num_neg :: "number \<Rightarrow> number" where
  "num_neg (Fin a) = Fin (- a)"
| "num_neg PInf = NInf"
| "num_neg NInf = PInf"
| "num_neg NaN = NaN"

fun num_add :: "number \<Rightarrow> number \<Rightarrow> number" where
  "num_add (Fin a) (Fin b) = Fin (a + b)"
| "num_add NaN _ = NaN"
| "num_add _ NaN = NaN"
| "num_add PInf NInf = NaN"
| "num_add NInf PInf = NaN"
| "num_add PInf _ = PInf"
| "num_add _ PInf = PInf"
| "num_add NInf _ = NInf"
| "num_add _ NInf = NInf"

definition num_sub :: "number \<Rightarrow> number \<Rightarrow> number" where
  "num_sub a b = num_add a (num_neg b)"

fun num_mul :: "number \<Rightarrow> number \<Rightarrow> number" where
  "num_mul (Fin a) (Fin b) = Fin (a * b)"
| "num_mul NaN _ = NaN"
| "num_mul _ NaN = NaN"
| "num_mul (Fin a) PInf = (if a = 0 then NaN else if 0 < a then PInf else NInf)"
| "num_mul (Fin a) NInf = (if a = 0 then NaN else if 0 < a then NInf else PInf)"
| "num_mul PInf (Fin b) = (if b = 0 then NaN else if 0 < b then PInf else NInf)"
| "num_mul NInf (Fin b) = (if b = 0 then NaN else if 0 < b then NInf else PInf)"
| "num_mul PInf PInf = PInf"
| "num_mul NInf NInf = PInf"
| "num_mul PInf NInf = NInf"
| "num_mul NInf PInf = NInf"

fun num_div :: "number \<Rightarrow> number \<Rightarrow> number" where
  "num_div (Fin a) (Fin b) =
     (if b \<noteq> 0 then Fin (a / b)
      else if a = 0 then NaN else if 0 < a then PInf else NInf)"
| "num_div NaN _ = NaN"
| "num_div _ NaN = NaN"
| "num_div (Fin a) PInf = Fin 0"
| "num_div (Fin a) NInf = Fin 0"
| "num_div PInf (Fin b) = (if 0 \<le> b then PInf else NInf)"
| "num_div NInf (Fin b) = (if 0 \<le> b then NInf else PInf)"
| "num_div PInf PInf = NaN"
| "num_div PInf NInf = NaN"
| "num_div NInf PInf = NaN"
| "num_div NInf NInf = NaN"

fun num_gt :: "number \<Rightarrow> number \<Rightarrow> bool" where
  "num_gt (Fin a) (Fin b) = (b < a)"
| "num_gt NaN _ = False"
| "num_gt _ NaN = False"
| "num_gt PInf PInf = False"
| "num_gt PInf _ = True"
| "num_gt NInf _ = False"
| "num_gt (Fin a) PInf = False"
| "num_gt (Fin a) NInf = True"

definition num_lt :: "number \<Rightarrow> number \<Rightarrow> bool" where
  "num_lt a b = num_gt b a"

section \<open>Data model (src/unnamed/part_001)\<close>

datatype PageSize = A4 | LETTER | FIT_IMAGE

datatype PageOrientation = PORTRAIT | LANDSCAPE | AUTO

datatype ImageFit = CONTAIN | FILL | ORIGINAL

text \<open>The browser's \<open>File\<close>, with the two attributes the code reads.\<close>

record File =
  file_name :: string
  file_type :: string

text \<open>
  \<open>UploadedImage\<close>; the fields \<open>id\<close>, \<open>file\<close> and \<open>type\<close> are \<open>ident\<close>,
  \<open>source_file\<close> and \<open>mime\<close> here.
  \<open>width\<close>, \<open>height\<close> and the margin of the settings are finite numbers: they come from
  the browser's \<open>Image\<close> element and from \<open>parseInt\<close> of a range input.
\<close>

record UploadedImage =
  ident :: string
  source_file :: File
  previewUrl :: string
  width :: real
  height :: real
  name :: string
  mime :: string

record PdfSettings =
  pageSize :: PageSize
  orientation :: PageOrientation
  margin :: real
  imageFit :: ImageFit
  filename :: string

section \<open>The PDF writer's interface\<close>

text \<open>
  jsPDF is an external library. A run of \<open>generatePdf\<close> is modelled by the sequence of
  calls it makes on the document: the constructor (orientation and format; the unit is
  always \<open>mm\<close> and \<open>compress\<close> always false), \<open>deletePage\<close>, \<open>addPage\<close>, \<open>addImage\<close>
  (image data, format tag, x, y, w, h; the alias is always undefined and the compression
  always \<open>NONE\<close>) and \<open>save\<close>.
\<close>

datatype orient = P | L

datatype format = Named string | Dims number number

datatype doc_op =
    NewJsPDF orient string
  | DeletePage nat
  | AddPage format orient
  | AddImage string string number number number number
  | Save string

text \<open>
  The failures the specification names for the layout computation. The source has no
  \<open>throw\<close>: no path of \<open>generatePdf\<close> returns either of them.
\<close>

datatype error = InvalidDimension | EmptyInput

section \<open>generatePdf (src/services/geminiService.ts, lines 213-360): the loop body\<close>

definition pxToMm :: number where
  "pxToMm = Fin 0.264583"

text \<open>Lines 243-258: nominal page size and \<open>targetFormat\<close>.\<close>

definition nominalPage :: "PdfSettings \<Rightarrow> UploadedImage \<Rightarrow> number \<times> number \<times> format" where
  "nominalPage settings img =
     (if pageSize settings = FIT_IMAGE then
        (let pageWidth = num_mul (Fin (width img)) pxToMm;
             pageHeight = num_mul (Fin (height img)) pxToMm
         in (pageWidth, pageHeight, Dims pageWidth pageHeight))
      else if pageSize settings = LETTER then (Fin 215.9, Fin 279.4, Named ''letter'')
      else (Fin 210, Fin 297, Named ''a4''))"

text \<open>Lines 261-280: the orientation, and the swap of the page dimensions.\<close>

definition orientPage ::
  "PdfSettings \<Rightarrow> UploadedImage \<Rightarrow> number \<Rightarrow> number \<Rightarrow> orient \<times> number \<times> number" where
  "orientPage settings img pageWidth pageHeight =
     (if orientation settings = AUTO then
        (let ori = (if num_gt (Fin (width img)) (Fin (height img)) then L else P)
         in if pageSize settings \<noteq> FIT_IMAGE \<and> ori = L
            then (ori, pageHeight, pageWidth)
            else (ori, pageWidth, pageHeight))
      else
        (let ori = (if orientation settings = LANDSCAPE then L else P)
         in if pageSize settings \<noteq> FIT_IMAGE \<and> ori = L \<and> num_lt pageWidth pageHeight
            then (ori, pageHeight, pageWidth)
            else (ori, pageWidth, pageHeight)))"

text \<open>Lines 283-321: the page commands issued before the image is drawn.\<close>

definition pageOps :: "PdfSettings \<Rightarrow> nat \<Rightarrow> UploadedImage \<Rightarrow> format \<Rightarrow> orient \<Rightarrow> doc_op list" where
  "pageOps settings i img targetFormat ori =
     (if 0 < i then [AddPage targetFormat ori]
      else if pageSize settings = FIT_IMAGE then
        (let w = num_mul (Fin (width img)) pxToMm;
             h = num_mul (Fin (height img)) pxToMm
         in [DeletePage 1, AddPage (Dims w h) (if num_gt w h then L else P)])
      else if ori \<noteq> P then [DeletePage 1, AddPage targetFormat ori]
      else [])"

text \<open>Lines 324-326: the drawable area.\<close>

definition drawArea :: "PdfSettings \<Rightarrow> number \<Rightarrow> number \<Rightarrow> number \<times> number" where
  "drawArea settings pageWidth pageHeight =
     (let m = Fin (margin settings)
      in (num_sub pageWidth (num_mul m (Fin 2)), num_sub pageHeight (num_mul m (Fin 2))))"

text \<open>Lines 328-354: the rectangle \<open>(x, y, w, h)\<close> handed to \<open>addImage\<close>.\<close>

definition placeImage ::
  "PdfSettings \<Rightarrow> UploadedImage \<Rightarrow> number \<Rightarrow> number \<Rightarrow> number \<times> number \<times> number \<times> number" where
  "placeImage settings img pageWidth pageHeight =
     (let m = Fin (margin settings);
          (drawWidth, drawHeight) = drawArea settings pageWidth pageHeight
      in if pageSize settings = FIT_IMAGE then (Fin 0, Fin 0, pageWidth, pageHeight)
         else if imageFit settings = CONTAIN then
           (let imgRatio = num_div (Fin (width img)) (Fin (height img));
                pageRatio = num_div drawWidth drawHeight
            in if num_gt imgRatio pageRatio then
                 (let h = num_div drawWidth imgRatio;
                      y = num_add m (num_div (num_sub drawHeight h) (Fin 2))
                  in (m, y, drawWidth, h))
               else
                 (let w = num_mul drawHeight imgRatio;
                      x = num_add m (num_div (num_sub drawWidth w) (Fin 2))
                  in (x, m, w, drawHeight)))
         else (m, m, drawWidth, drawHeight))"

text \<open>
  The values the loop body holds for image \<open>i\<close> when it calls \<open>addImage\<close>: the loop index,
  \<open>pageWidth\<close>, \<open>pageHeight\<close>, \<open>orientation\<close>, \<open>targetFormat\<close> and \<open>x\<close>, \<open>y\<close>, \<open>w\<close>, \<open>h\<close>.
\<close>

record PageLayout =
  sourceImageIndex :: nat
  pageWidthMm :: number
  pageHeightMm :: number
  pageOrientation :: orient
  targetFormat :: format
  imageX :: number
  imageY :: number
  imageWidthMm :: number
  imageHeightMm :: number

definition layoutPage :: "PdfSettings \<Rightarrow> nat \<Rightarrow> UploadedImage \<Rightarrow> PageLayout" where
  "layoutPage settings i img =
     (let (nomWidth, nomHeight, fmt) = nominalPage settings img;
          (ori, pageWidth, pageHeight) = orientPage settings img nomWidth nomHeight;
          (x, y, w, h) = placeImage settings img pageWidth pageHeight
      in \<lparr>sourceImageIndex = i, pageWidthMm = pageWidth, pageHeightMm = pageHeight,
          pageOrientation = ori, targetFormat = fmt,
          imageX = x, imageY = y, imageWidthMm = w, imageHeightMm = h\<rparr>)"

text \<open>Line 356: the draw call; every type other than \<open>image/png\<close> is tagged \<open>JPEG\<close>.\<close>

definition drawOp :: "UploadedImage \<Rightarrow> PageLayout \<Rightarrow> doc_op" where
  "drawOp img l =
     AddImage (previewUrl img) (if mime img = ''image/png'' then ''PNG'' else ''JPEG'')
       (imageX l) (imageY l) (imageWidthMm l) (imageHeightMm l)"

definition loopBody :: "PdfSettings \<Rightarrow> nat \<Rightarrow> UploadedImage \<Rightarrow> PageLayout \<times> doc_op list" where
  "loopBody settings i img =
     (let l = layoutPage settings i img
      in (l, pageOps settings i img (targetFormat l) (pageOrientation l) @ [drawOp img l]))"

section \<open>generatePdf\<close>

text \<open>The \<open>for\<close> loop of lines 228-357, from index \<open>i\<close> on.\<close>

function generatePdf_loop ::
  "PdfSettings \<Rightarrow> UploadedImage list \<Rightarrow> nat \<Rightarrow> (PageLayout \<times> doc_op list) list" where
  "generatePdf_loop settings images i =
     (if i < length images
      then loopBody settings i (images ! i) # generatePdf_loop settings images (i + 1)
      else [])"
  by pat_completeness auto
termination
  by (relation "measure (\<lambda>(settings, images, i). length images - i)") auto

declare generatePdf_loop.simps [simp del]

text \<open>The per-image values of a run, in the order of the iterations.\<close>

definition computeLayout :: "UploadedImage list \<Rightarrow> PdfSettings \<Rightarrow> PageLayout list" where
  "computeLayout images settings = map fst (generatePdf_loop settings images 0)"

text \<open>
  \<open>generatePdf\<close>: nothing at all on an empty list (line 214); otherwise the constructor,
  the calls of the loop and \<open>save\<close> with the file name or its default. These are the
  calls in program order, each taken to return; \<open>generatePdf_run\<close> below ends the run at
  a call that throws.
\<close>

definition generatePdf :: "UploadedImage list \<Rightarrow> PdfSettings \<Rightarrow> error + doc_op list" where
  "generatePdf images settings =
     (if length images = 0 then Inr []
      else Inr (NewJsPDF P ''a4''
                # concat (map snd (generatePdf_loop settings images 0))
                @ [Save (if filename settings = [] then ''images.pdf'' else filename settings)]))"




section \<open>Upload (src/unnamed/part_000 and part_002)\<close>






text \<open>The default settings of the application (part_002, lines 8-14).\<close>

definition DEFAULT_SETTINGS :: PdfSettings where
  "DEFAULT_SETTINGS =
     \<lparr>pageSize = A4, orientation = AUTO, margin = 10, imageFit = CONTAIN,
      filename = ''images.pdf''\<rparr>"

section \<open>Sample inputs and the draw calls of a run\<close>

definition sampleImage :: "real \<Rightarrow> real \<Rightarrow> string \<Rightarrow> UploadedImage" where
  "sampleImage pw ph t =
     \<lparr>ident = ''k3x9'', source_file = \<lparr>file_name = ''scan'', file_type = t\<rparr>,
      previewUrl = ''blob:scan'', width = pw, height = ph, name = ''scan'', mime = t\<rparr>"

fun isAddImage :: "doc_op \<Rightarrow> bool" where
  "isAddImage (AddImage d f x y w h) = True"
| "isAddImage _ = False"




section \<open>The standard pages in closed form\<close>

text \<open>
  What lines 250-280 compute for the two standard page sizes, written as real numbers:
  whether the page comes out landscape, and its width and height after the swap.
  Lemma \<open>standard_page\<close> below proves that the loop body computes exactly these.
\<close>

definition resolvesLandscape :: "PdfSettings \<Rightarrow> UploadedImage \<Rightarrow> bool" where
  "resolvesLandscape settings img =
     (if orientation settings = AUTO then height img < width img
      else orientation settings = LANDSCAPE)"

definition standardWidth :: "PdfSettings \<Rightarrow> UploadedImage \<Rightarrow> real" where
  "standardWidth settings img =
     (if resolvesLandscape settings img
      then (if pageSize settings = LETTER then 279.4 else 297)
      else (if pageSize settings = LETTER then 215.9 else 210))"

definition standardHeight :: "PdfSettings \<Rightarrow> UploadedImage \<Rightarrow> real" where
  "standardHeight settings img =
     (if resolvesLandscape settings img
      then (if pageSize settings = LETTER then 215.9 else 210)
      else (if pageSize settings = LETTER then 279.4 else 297))"

section \<open>The loop, iteration by iteration\<close>

lemma generatePdf_loop_map:
  "generatePdf_loop settings images i =
     map (\<lambda>k. loopBody settings k (images ! k)) [i ..< length images]"
proof (induction settings images i rule: generatePdf_loop.induct)
  case (1 settings images i)
  show ?case
  proof (cases "i < length images")
    case True
    with 1 show ?thesis
      by (subst generatePdf_loop.simps) (simp add: upt_conv_Cons)
  next
    case False
    then show ?thesis
      by (subst generatePdf_loop.simps) simp
  qed
qed

lemma fst_loopBody: "fst (loopBody settings i img) = layoutPage settings i img"
  by (simp add: loopBody_def Let_def)

lemma computeLayout_map:
  "computeLayout images settings =
     map (\<lambda>k. layoutPage settings k (images ! k)) [0 ..< length images]"
  by (simp add: computeLayout_def generatePdf_loop_map fst_loopBody comp_def)

lemma sourceImageIndex_layoutPage: "sourceImageIndex (layoutPage settings i img) = i"
  by (simp add: layoutPage_def Let_def split: prod.splits)

lemma length_computeLayout: "length (computeLayout images settings) = length images"
  by (simp add: computeLayout_map)

lemma nth_computeLayout:
  "k < length images \<Longrightarrow> computeLayout images settings ! k = layoutPage settings k (images ! k)"
  by (simp add: computeLayout_map)

lemma filter_pageOps: "filter isAddImage (pageOps settings i img fmt ori) = []"
  by (simp add: pageOps_def Let_def)

lemma draws_of_loopBody:
  "filter isAddImage (snd (loopBody settings i img)) = [drawOp img (layoutPage settings i img)]"
  by (simp add: loopBody_def Let_def filter_pageOps drawOp_def)

lemma concat_singletons: "concat (map (\<lambda>k. [f k]) ks) = map f ks"
  by (induction ks) simp_all

lemma draws_of_loop:
  "filter isAddImage (concat (map snd (generatePdf_loop settings images 0))) =
     map (\<lambda>k. drawOp (images ! k) (layoutPage settings k (images ! k))) [0 ..< length images]"
  by (simp add: generatePdf_loop_map filter_concat comp_def draws_of_loopBody concat_singletons)

lemma map2_drawOp:
  "map2 drawOp images (computeLayout images settings) =
     map (\<lambda>k. drawOp (images ! k) (layoutPage settings k (images ! k))) [0 ..< length images]"
  by (rule nth_equalityI) (simp_all add: length_computeLayout nth_computeLayout)

lemma draws_of_generatePdf:
  assumes "images \<noteq> []"
  shows "\<exists>ops. generatePdf images settings = Inr ops
           \<and> filter isAddImage ops =
               map (\<lambda>k. drawOp (images ! k) (layoutPage settings k (images ! k)))
                 [0 ..< length images]"
  using assms by (simp add: generatePdf_def draws_of_loop)

lemma generatePdf_single:
  "generatePdf [a] s = Inr (NewJsPDF P ''a4'' # snd (loopBody s 0 a)
     @ [Save (if filename s = [] then ''images.pdf'' else filename s)])"
  by (simp add: generatePdf_def generatePdf_loop_map)


section \<open>Runs against a writer that may throw\<close>



section \<open>The loop body on the standard pages\<close>

lemmas layout_defs = layoutPage_def nominalPage_def orientPage_def placeImage_def drawArea_def
  pxToMm_def num_sub_def num_lt_def Let_def

lemmas layout_unfold = layout_defs DEFAULT_SETTINGS_def sampleImage_def

lemmas standard_defs = resolvesLandscape_def standardWidth_def standardHeight_def


lemma standard_page:
  assumes "pageSize settings \<noteq> FIT_IMAGE"
  shows "pageWidthMm (layoutPage settings i img) = Fin (standardWidth settings img)
       \<and> pageHeightMm (layoutPage settings i img) = Fin (standardHeight settings img)
       \<and> (imageX (layoutPage settings i img), imageY (layoutPage settings i img),
          imageWidthMm (layoutPage settings i img), imageHeightMm (layoutPage settings i img))
         = placeImage settings img (Fin (standardWidth settings img))
             (Fin (standardHeight settings img))"
proof (cases "pageSize settings")
  case A4
  then show ?thesis
    by (cases "orientation settings")
       (simp_all add: standard_defs layoutPage_def nominalPage_def orientPage_def
          num_lt_def Let_def split: prod.splits)
next
  case LETTER
  then show ?thesis
    by (cases "orientation settings")
       (simp_all add: standard_defs layoutPage_def nominalPage_def orientPage_def
          num_lt_def Let_def split: prod.splits)
next
  case FIT_IMAGE
  with assms show ?thesis by simp
qed

lemma standard_area:
  assumes "0 \<le> margin settings" and "margin settings \<le> 50"
  shows "0 < standardWidth settings img - 2 * margin settings
       \<and> 0 < standardHeight settings img - 2 * margin settings"
  using assms by (simp add: standard_defs)

lemma drawArea_Fin:
  "drawArea settings (Fin pw) (Fin ph) =
     (Fin (pw - 2 * margin settings), Fin (ph - 2 * margin settings))"
  by (simp add: drawArea_def num_sub_def Let_def mult.commute)




lemma place_nonneg:
  assumes "pageSize settings \<noteq> FIT_IMAGE"
    and "0 \<le> width img" and "0 \<le> height img"
    and "0 < pw - 2 * margin settings" and "0 < ph - 2 * margin settings"
    and "placeImage settings img (Fin pw) (Fin ph) = (x, y, w, h)"
  shows "\<not> num_lt w (Fin 0) \<and> \<not> num_lt h (Fin 0)"
proof (cases "imageFit settings = CONTAIN")
  case False
  with assms show ?thesis
    by (auto simp: placeImage_def drawArea_Fin num_lt_def Let_def)
next
  case True
  show ?thesis
  proof (cases "height img = 0")
    case False
    with assms True show ?thesis
      by (auto simp: placeImage_def drawArea_Fin num_lt_def num_sub_def Let_def
          divide_less_0_iff mult_less_0_iff split: if_splits)
  next
    case h0: True
    show ?thesis
    proof (cases "width img = 0")
      case True
      with assms h0 \<open>imageFit settings = CONTAIN\<close> show ?thesis
        by (auto simp: placeImage_def drawArea_Fin num_lt_def num_sub_def Let_def)
    next
      case False
      with assms h0 \<open>imageFit settings = CONTAIN\<close> show ?thesis
        by (auto simp: placeImage_def drawArea_Fin num_lt_def num_sub_def Let_def)
    qed
  qed
qed

lemma place_positive:
  assumes "pageSize settings \<noteq> FIT_IMAGE"
    and "0 < width img" and "0 < height img"
    and "0 < pw - 2 * margin settings" and "0 < ph - 2 * margin settings"
  shows "\<exists>x y w h. placeImage settings img (Fin pw) (Fin ph) = (x, y, Fin w, Fin h)
           \<and> 0 < w \<and> 0 < h"
  using assms by (simp add: placeImage_def drawArea_Fin num_sub_def Let_def)

lemma layoutPage_cong:
  assumes "width a = width b" "height a = height b"
    "pageSize s = pageSize t" "orientation s = orientation t" "margin s = margin t"
    "imageFit s = imageFit t"
  shows "layoutPage s i a = (layoutPage t j b)\<lparr>sourceImageIndex := i\<rparr>"
  using assms by (simp add: layout_defs split: prod.splits)

section \<open>Upload\<close>


section \<open>Order and number of the pages\<close>

text \<open>
  C1. For a non-empty image list and any settings, the run holds one set of layout values
  per image, in the order of the list: there are as many as images and the k-th carries
  the index k. The draw calls of the run are exactly these, image k drawn with the k-th
  layout.
\<close>

theorem one_layout_per_image:
  assumes "images \<noteq> []"
  shows "length (computeLayout images settings) = length images
       \<and> (\<forall>k < length images. sourceImageIndex (computeLayout images settings ! k) = k)
       \<and> (\<exists>ops. generatePdf images settings = Inr ops
              \<and> filter isAddImage ops = map2 drawOp images (computeLayout images settings))"
proof -
  have "\<forall>k < length images. sourceImageIndex (computeLayout images settings ! k) = k"
    by (simp add: nth_computeLayout sourceImageIndex_layoutPage)
  moreover have "\<exists>ops. generatePdf images settings = Inr ops
       \<and> filter isAddImage ops = map2 drawOp images (computeLayout images settings)"
    using draws_of_generatePdf [OF assms, of settings] by (simp add: map2_drawOp)
  ultimately show ?thesis
    by (simp add: length_computeLayout)
qed

theorem one_layout_per_image_witness:
  "[sampleImage 3000 2000 ''image/jpeg'', sampleImage 600 800 ''image/png''] \<noteq> []
   \<and> length (computeLayout
        [sampleImage 3000 2000 ''image/jpeg'', sampleImage 600 800 ''image/png'']
        DEFAULT_SETTINGS) = 2
   \<and> sourceImageIndex (computeLayout
        [sampleImage 3000 2000 ''image/jpeg'', sampleImage 600 800 ''image/png'']
        DEFAULT_SETTINGS ! 0) = 0
   \<and> sourceImageIndex (computeLayout
        [sampleImage 3000 2000 ''image/jpeg'', sampleImage 600 800 ''image/png'']
        DEFAULT_SETTINGS ! 1) = 1"
  using one_layout_per_image
    [of "[sampleImage 3000 2000 ''image/jpeg'', sampleImage 600 800 ''image/png'']"
        DEFAULT_SETTINGS]
  by simp

text \<open>
  C9. On an empty image list the run returns at once, without an error: no document is
  constructed, no page or image call is made, nothing is saved, and there are no layout
  values.
\<close>

theorem empty_input_is_noop:
  "generatePdf [] settings = Inr [] \<and> computeLayout [] settings = []"
  by (simp add: generatePdf_def computeLayout_map)

section \<open>Page size and orientation\<close>

text \<open>
  C4. With \<open>orientation = AUTO\<close> the page is landscape exactly when the image is wider
  than high, portrait otherwise (square images too). On A4 and Letter a landscape page
  has the nominal width and height swapped, so that its width exceeds its height; a
  3000 x 2000 image on A4 with AUTO gets a page of 297 x 210 mm.
\<close>

theorem auto_orientation:
  assumes "orientation settings = AUTO"
  shows "pageOrientation (layoutPage settings i img) = (if height img < width img then L else P)
       \<and> (pageSize settings = A4 \<longrightarrow>
            (pageWidthMm (layoutPage settings i img), pageHeightMm (layoutPage settings i img)) =
            (if height img < width img then (Fin 297, Fin 210) else (Fin 210, Fin 297)))
       \<and> (pageSize settings = LETTER \<longrightarrow>
            (pageWidthMm (layoutPage settings i img), pageHeightMm (layoutPage settings i img)) =
            (if height img < width img then (Fin 279.4, Fin 215.9) else (Fin 215.9, Fin 279.4)))
       \<and> (pageSize settings \<noteq> FIT_IMAGE \<and> height img < width img \<longrightarrow>
            num_gt (pageWidthMm (layoutPage settings i img))
              (pageHeightMm (layoutPage settings i img)))
       \<and> pageWidthMm (layoutPage DEFAULT_SETTINGS 0 (sampleImage 3000 2000 ''image/jpeg''))
           = Fin 297
       \<and> pageHeightMm (layoutPage DEFAULT_SETTINGS 0 (sampleImage 3000 2000 ''image/jpeg''))
           = Fin 210"
  using assms
  by (cases "pageSize settings")
     (simp_all add: layout_unfold split: prod.splits)

theorem auto_orientation_witness:
  "orientation DEFAULT_SETTINGS = AUTO \<and> pageSize DEFAULT_SETTINGS = A4
   \<and> pageSize DEFAULT_SETTINGS \<noteq> FIT_IMAGE
   \<and> height (sampleImage 3000 2000 ''image/jpeg'') < width (sampleImage 3000 2000 ''image/jpeg'')
   \<and> pageOrientation (layoutPage DEFAULT_SETTINGS 0 (sampleImage 3000 2000 ''image/jpeg'')) = L
   \<and> pageOrientation (layoutPage DEFAULT_SETTINGS 0 (sampleImage 800 800 ''image/jpeg'')) = P
   \<and> pageWidthMm (layoutPage DEFAULT_SETTINGS 0 (sampleImage 3000 2000 ''image/jpeg''))
       = Fin 297
   \<and> pageHeightMm (layoutPage DEFAULT_SETTINGS 0 (sampleImage 3000 2000 ''image/jpeg''))
       = Fin 210
   \<and> num_gt (pageWidthMm (layoutPage DEFAULT_SETTINGS 0 (sampleImage 3000 2000 ''image/jpeg'')))
        (pageHeightMm (layoutPage DEFAULT_SETTINGS 0 (sampleImage 3000 2000 ''image/jpeg'')))
   \<and> pageOrientation (layoutPage (DEFAULT_SETTINGS\<lparr>pageSize := LETTER\<rparr>) 0
        (sampleImage 600 800 ''image/png'')) = P
   \<and> pageWidthMm (layoutPage (DEFAULT_SETTINGS\<lparr>pageSize := LETTER\<rparr>) 0
        (sampleImage 600 800 ''image/png'')) = Fin 215.9"
  using auto_orientation [of DEFAULT_SETTINGS 0 "sampleImage 3000 2000 ''image/jpeg''"]
    auto_orientation [of DEFAULT_SETTINGS 0 "sampleImage 800 800 ''image/jpeg''"]
    auto_orientation [of "DEFAULT_SETTINGS\<lparr>pageSize := LETTER\<rparr>" 0
      "sampleImage 600 800 ''image/png''"]
  by (simp add: DEFAULT_SETTINGS_def sampleImage_def)

text \<open>
  A 1000 x 1000 image in FIT_IMAGE mode gets a page 264.583 mm wide: the source multiplies
  by the six-digit constant 0.264583, and the result is farther than 0.000001 from
  1000 * 25.4 / 96.
\<close>

theorem fit_image_tolerance_counterexample:
  "pageSize (DEFAULT_SETTINGS\<lparr>pageSize := FIT_IMAGE\<rparr>) = FIT_IMAGE
   \<and> pageWidthMm (layoutPage (DEFAULT_SETTINGS\<lparr>pageSize := FIT_IMAGE\<rparr>) 0
        (sampleImage 1000 1000 ''image/jpeg'')) = Fin 264.583
   \<and> \<not> \<bar>264.583 - 1000 * 25.4 / 96\<bar> \<le> (0.000001 :: real)"
  by (simp add: layout_unfold)

text \<open>
  C3, as the code has it. In FIT_IMAGE mode the page is the pixel size times 0.264583,
  exactly; this differs from the pixel size times 25.4/96 by the pixel size divided by
  3,000,000. The image rectangle is the whole page (x = 0, y = 0, width and height of
  the page), and neither the margin nor the image fit changes anything.
\<close>

theorem fit_image_page:
  assumes "pageSize settings = FIT_IMAGE"
  shows "pageWidthMm (layoutPage settings i img) = Fin (width img * 0.264583)
       \<and> pageHeightMm (layoutPage settings i img) = Fin (height img * 0.264583)
       \<and> \<bar>width img * 0.264583 - width img * 25.4 / 96\<bar> = \<bar>width img\<bar> / 3000000
       \<and> \<bar>height img * 0.264583 - height img * 25.4 / 96\<bar> = \<bar>height img\<bar> / 3000000
       \<and> imageX (layoutPage settings i img) = Fin 0
       \<and> imageY (layoutPage settings i img) = Fin 0
       \<and> imageWidthMm (layoutPage settings i img) = pageWidthMm (layoutPage settings i img)
       \<and> imageHeightMm (layoutPage settings i img) = pageHeightMm (layoutPage settings i img)
       \<and> layoutPage (settings\<lparr>margin := m, imageFit := f\<rparr>) i img = layoutPage settings i img"
proof -
  have a: "\<bar>x * 0.264583 - x * 25.4 / 96\<bar> = \<bar>x\<bar> / 3000000" for x :: real
  proof -
    have "x * 0.264583 - x * 25.4 / 96 = - (x / 3000000)"
      by (simp add: field_simps)
    then show ?thesis by simp
  qed
  show ?thesis using assms
    by (simp add: a) (simp add: layout_defs split: prod.splits)
qed

theorem fit_image_page_witness:
  "pageSize (DEFAULT_SETTINGS\<lparr>pageSize := FIT_IMAGE\<rparr>) = FIT_IMAGE
   \<and> pageWidthMm (layoutPage (DEFAULT_SETTINGS\<lparr>pageSize := FIT_IMAGE\<rparr>) 0
        (sampleImage 1000 2000 ''image/jpeg'')) = Fin 264.583
   \<and> pageHeightMm (layoutPage (DEFAULT_SETTINGS\<lparr>pageSize := FIT_IMAGE\<rparr>) 0
        (sampleImage 1000 2000 ''image/jpeg'')) = Fin 529.166
   \<and> imageX (layoutPage (DEFAULT_SETTINGS\<lparr>pageSize := FIT_IMAGE\<rparr>) 0
        (sampleImage 1000 2000 ''image/jpeg'')) = Fin 0
   \<and> imageWidthMm (layoutPage (DEFAULT_SETTINGS\<lparr>pageSize := FIT_IMAGE\<rparr>) 0
        (sampleImage 1000 2000 ''image/jpeg'')) = Fin 264.583"
  using fit_image_page [of "DEFAULT_SETTINGS\<lparr>pageSize := FIT_IMAGE\<rparr>" 0
      "sampleImage 1000 2000 ''image/jpeg''"]
  by (simp add: DEFAULT_SETTINGS_def sampleImage_def)

text \<open>
  C10. The page size and the rectangle of an image depend on its pixel width, its pixel
  height and the page size, orientation, margin and image fit of the settings only: two
  runs that agree on these give the image the same six values, whatever the other
  images of the two lists and the position of the image in each.
\<close>

theorem layout_of_image_and_settings_only:
  assumes "i < length xs" and "j < length ys"
    and "width (xs ! i) = width (ys ! j)" and "height (xs ! i) = height (ys ! j)"
    and "pageSize s = pageSize t" and "orientation s = orientation t"
    and "margin s = margin t" and "imageFit s = imageFit t"
  shows "pageWidthMm (computeLayout xs s ! i) = pageWidthMm (computeLayout ys t ! j)
       \<and> pageHeightMm (computeLayout xs s ! i) = pageHeightMm (computeLayout ys t ! j)
       \<and> imageX (computeLayout xs s ! i) = imageX (computeLayout ys t ! j)
       \<and> imageY (computeLayout xs s ! i) = imageY (computeLayout ys t ! j)
       \<and> imageWidthMm (computeLayout xs s ! i) = imageWidthMm (computeLayout ys t ! j)
       \<and> imageHeightMm (computeLayout xs s ! i) = imageHeightMm (computeLayout ys t ! j)"
proof -
  have "layoutPage s i (xs ! i) = (layoutPage t j (ys ! j))\<lparr>sourceImageIndex := i\<rparr>"
    using assms(3-8) by (rule layoutPage_cong)
  then show ?thesis
    using assms(1,2) by (simp add: nth_computeLayout)
qed

theorem layout_of_image_and_settings_only_witness:
  "(1::nat) < length [sampleImage 600 800 ''image/png'', sampleImage 3000 2000 ''image/jpeg'']
   \<and> (0::nat) < length [sampleImage 3000 2000 ''image/webp'']
   \<and> width ([sampleImage 600 800 ''image/png'', sampleImage 3000 2000 ''image/jpeg''] ! 1)
       = width ([sampleImage 3000 2000 ''image/webp''] ! 0)
   \<and> height ([sampleImage 600 800 ''image/png'', sampleImage 3000 2000 ''image/jpeg''] ! 1)
       = height ([sampleImage 3000 2000 ''image/webp''] ! 0)
   \<and> pageSize DEFAULT_SETTINGS = pageSize (DEFAULT_SETTINGS\<lparr>filename := ''other.pdf''\<rparr>)
   \<and> imageY (computeLayout
        [sampleImage 600 800 ''image/png'', sampleImage 3000 2000 ''image/jpeg'']
        DEFAULT_SETTINGS ! 1)
     = imageY (computeLayout [sampleImage 3000 2000 ''image/webp'']
        (DEFAULT_SETTINGS\<lparr>filename := ''other.pdf''\<rparr>) ! 0)"
  using layout_of_image_and_settings_only
    [of 1 "[sampleImage 600 800 ''image/png'', sampleImage 3000 2000 ''image/jpeg'']"
      0 "[sampleImage 3000 2000 ''image/webp'']" DEFAULT_SETTINGS
      "DEFAULT_SETTINGS\<lparr>filename := ''other.pdf''\<rparr>"]
  by (simp add: sampleImage_def)

section \<open>Placement of the image\<close>



text \<open>
  C8. On A4 and Letter, in either orientation and with any image fit, a margin between
  0 and 50 never gives a rectangle of negative width or height, for any image whose
  pixel width and height are not negative; for an image of positive pixel size both are
  finite and positive. With a margin of 50 the drawable area of a portrait A4 page is
  110 x 197 mm.
\<close>

theorem rectangle_never_negative:
  assumes "pageSize settings = A4 \<or> pageSize settings = LETTER"
    and "0 \<le> margin settings" and "margin settings \<le> 50"
    and "0 \<le> width img" and "0 \<le> height img"
  shows "\<not> num_lt (imageWidthMm (layoutPage settings i img)) (Fin 0)
       \<and> \<not> num_lt (imageHeightMm (layoutPage settings i img)) (Fin 0)
       \<and> (0 < width img \<and> 0 < height img \<longrightarrow>
            (\<exists>w h. imageWidthMm (layoutPage settings i img) = Fin w
                  \<and> imageHeightMm (layoutPage settings i img) = Fin h \<and> 0 < w \<and> 0 < h))
       \<and> drawArea (DEFAULT_SETTINGS\<lparr>margin := 50\<rparr>) (Fin 210) (Fin 297) = (Fin 110, Fin 197)"
proof -
  let ?l = "layoutPage settings i img"
  have std: "pageSize settings \<noteq> FIT_IMAGE"
    using assms(1) by auto
  note area = standard_area [OF assms(2,3), of img]
  have rect: "placeImage settings img (Fin (standardWidth settings img))
      (Fin (standardHeight settings img))
      = (imageX ?l, imageY ?l, imageWidthMm ?l, imageHeightMm ?l)"
    using standard_page [OF std, of i img] by simp
  have a: "\<not> num_lt (imageWidthMm ?l) (Fin 0) \<and> \<not> num_lt (imageHeightMm ?l) (Fin 0)"
    using place_nonneg [OF std assms(4,5) _ _ rect] area by simp
  have b: "\<exists>w h. imageWidthMm ?l = Fin w \<and> imageHeightMm ?l = Fin h \<and> 0 < w \<and> 0 < h"
    if "0 < width img" "0 < height img"
    using place_positive [OF std that, of "standardWidth settings img"
        "standardHeight settings img"] area rect
    by auto
  have c: "drawArea (DEFAULT_SETTINGS\<lparr>margin := 50\<rparr>) (Fin 210) (Fin 297) = (Fin 110, Fin 197)"
    by (simp add: drawArea_Fin DEFAULT_SETTINGS_def)
  from a b c show ?thesis by blast
qed

theorem rectangle_never_negative_witness:
  "(pageSize (DEFAULT_SETTINGS\<lparr>margin := 50\<rparr>) = A4
      \<or> pageSize (DEFAULT_SETTINGS\<lparr>margin := 50\<rparr>) = LETTER)
   \<and> 0 \<le> margin (DEFAULT_SETTINGS\<lparr>margin := 50\<rparr>)
   \<and> margin (DEFAULT_SETTINGS\<lparr>margin := 50\<rparr>) \<le> 50
   \<and> 0 \<le> width (sampleImage 1 4000 ''image/png'')
   \<and> 0 \<le> height (sampleImage 1 4000 ''image/png'')
   \<and> 0 < width (sampleImage 1 4000 ''image/png'')
   \<and> 0 < height (sampleImage 1 4000 ''image/png'')
   \<and> \<not> num_lt (imageWidthMm (layoutPage (DEFAULT_SETTINGS\<lparr>margin := 50\<rparr>) 0
        (sampleImage 1 4000 ''image/png''))) (Fin 0)
   \<and> imageWidthMm (layoutPage (DEFAULT_SETTINGS\<lparr>margin := 50\<rparr>) 0
        (sampleImage 1 4000 ''image/png'')) = Fin (197 / 4000)
   \<and> imageHeightMm (layoutPage (DEFAULT_SETTINGS\<lparr>margin := 50\<rparr>) 0
        (sampleImage 1 4000 ''image/png'')) = Fin 197"
  using rectangle_never_negative [of "DEFAULT_SETTINGS\<lparr>margin := 50\<rparr>"
      "sampleImage 1 4000 ''image/png''" 0]
  by (simp add: layout_unfold)

section \<open>Failures\<close>




section \<open>WebP images\<close>




section \<open>The first page\<close>

text \<open>
  C7, at one input. A single portrait image of 1000 x 2000 pixels with the page size
  LETTER: the values computed for the page are 215.9 x 279.4 mm and the rectangle is
  laid out for them, but the run issues no page command before drawing, so the image
  lands on the page the constructor made with the format \<open>a4\<close>. For any later image the
  same settings do issue \<open>addPage\<close> with the format \<open>letter\<close>.
\<close>

theorem first_letter_page_keeps_a4:
  "generatePdf [sampleImage 1000 2000 ''image/jpeg''] (DEFAULT_SETTINGS\<lparr>pageSize := LETTER\<rparr>) =
     Inr [NewJsPDF P ''a4'',
          AddImage ''blob:scan'' ''JPEG'' (Fin 43.1) (Fin 10) (Fin 129.7) (Fin 259.4),
          Save ''images.pdf'']
   \<and> pageWidthMm (layoutPage (DEFAULT_SETTINGS\<lparr>pageSize := LETTER\<rparr>) 0
        (sampleImage 1000 2000 ''image/jpeg'')) = Fin 215.9
   \<and> pageHeightMm (layoutPage (DEFAULT_SETTINGS\<lparr>pageSize := LETTER\<rparr>) 0
        (sampleImage 1000 2000 ''image/jpeg'')) = Fin 279.4
   \<and> pageOps (DEFAULT_SETTINGS\<lparr>pageSize := LETTER\<rparr>) 1 (sampleImage 1000 2000 ''image/jpeg'')
        (Named ''letter'') P = [AddPage (Named ''letter'') P]"
  by (simp add: generatePdf_single loopBody_def pageOps_def drawOp_def layout_unfold)

end
